theory Spec2Isabelle
  imports Main "HOL-Library.Word"
begin

unbundle bit_operations_syntax

section \<open>Python values used by the catalog\<close>

text \<open>
  A Python \<open>str\<close> is a sequence of Unicode code points. The program's literals are
  Cyrillic, so a string is a list of code points (natural numbers below 1114112), not of
  bytes. \<open>ascii\<close> writes an ASCII literal as such a list.
\<close>

type_synonym str = "nat list"

definition ascii :: "string \<Rightarrow> str" where
  "ascii s = map of_char s"

text \<open>
  The \<open>year\<close> attribute is annotated \<open>int\<close>, but the menu passes the text read by
  \<open>input()\<close>; both forms are stored as they come.
\<close>

datatype yearval = YInt int | YStr str

fun digits :: "nat \<Rightarrow> str" where
  "digits n = (if n < 10 then [48 + n] else digits (n div 10) @ [48 + n mod 10])"

declare digits.simps [simp del]

text \<open>\<open>str(i)\<close> of an integer: its decimal rendering, with a minus sign (code point 45).\<close>

definition str_int :: "int \<Rightarrow> str" where
  "str_int i = (if i < 0 then 45 # digits (nat (- i)) else digits (nat i))"

text \<open>\<open>str(book.year)\<close>: a string is its own rendering.\<close>

fun str_year :: "yearval \<Rightarrow> str" where
  "str_year (YInt i) = str_int i"
| "str_year (YStr s) = s"

text \<open>A \<open>uuid.UUID\<close> object holds a 128-bit integer.\<close>

type_synonym uuid = "128 word"

definition hexdigit :: "nat \<Rightarrow> nat" where
  "hexdigit d = (if d < 10 then 48 + d else 87 + d)"

text \<open>\<open>'%032x' % self.int\<close>: the 32 lower-case hexadecimal digits, most significant first.\<close>

definition hex32 :: "uuid \<Rightarrow> str" where
  "hex32 u = map (\<lambda>i. hexdigit (unat (drop_bit (4 * (31 - i)) u AND 15))) [0..<32]"

text \<open>\<open>str(u)\<close> of a UUID: the digits in groups of 8, 4, 4, 4 and 12, joined by hyphens.\<close>

definition str_uuid :: "uuid \<Rightarrow> str" where
  "str_uuid u =
     (let h = hex32 u
      in take 8 h @ [45] @ take 4 (drop 8 h) @ [45] @ take 4 (drop 12 h) @ [45] @
         take 4 (drop 16 h) @ [45] @ drop 20 h)"

text \<open>
  The operator \<open>==\<close> on the two kinds of object that \<open>update_status\<close> compares.
  Neither \<open>str.__eq__\<close> nor \<open>UUID.__eq__\<close> accepts an operand of the other class
  (both return \<open>NotImplemented\<close>), so Python falls back to object identity and the
  comparison of a string with a UUID is \<open>False\<close>.
\<close>

datatype pyobj = Str str | UUID uuid

fun py_eq :: "pyobj \<Rightarrow> pyobj \<Rightarrow> bool" where
  "py_eq (Str a) (Str b) = (a = b)"
| "py_eq (UUID a) (UUID b) = (a = b)"
| "py_eq _ _ = False"

text \<open>The operator \<open>in\<close> on strings: \<open>py_in xs ys\<close> is \<open>xs in ys\<close>.\<close>

fun starts_with :: "str \<Rightarrow> str \<Rightarrow> bool" where
  "starts_with [] ys = True"
| "starts_with (x # xs) [] = False"
| "starts_with (x # xs) (y # ys) = (x = y \<and> starts_with xs ys)"

fun py_in :: "str \<Rightarrow> str \<Rightarrow> bool" where
  "py_in xs [] = (xs = [])"
| "py_in xs (y # ys) = (starts_with xs (y # ys) \<or> py_in xs ys)"

section \<open>Book\<close>

record book =
  id_book :: str
  title :: str
  author :: str
  year :: yearval
  status :: str

text \<open>The two status literals of the source, as code points.\<close>

definition in_stock :: str where
  "in_stock = [1074, 32, 1085, 1072, 1083, 1080, 1095, 1080, 1080]"

definition checked_out :: str where
  "checked_out = [1074, 1099, 1076, 1072, 1085, 1072]"

section \<open>The world outside the objects\<close>

text \<open>
  JSON documents as \<open>json.load\<close> returns them (floats are left out). A dict is the
  list of its items in insertion order.
\<close>

datatype json =
  JNull | JBool bool | JInt int | JStr str | JList "json list" | JDict "(str \<times> json) list"

text \<open>
  Exceptions. \<open>FileNotFoundError\<close> is the error of reading a file that is not there,
  and of the empty path. \<open>OSError\<close> stands for the error of an \<open>open\<close> that the file
  system refuses otherwise, some subclass of \<open>OSError\<close>: \<open>IsADirectoryError\<close>,
  \<open>PermissionError\<close> and the like. \<open>IllTyped\<close> is not an exception: it marks a
  document whose field values do not have the annotated types, from which Python builds
  objects that the typed record \<open>book\<close> cannot hold.
\<close>

datatype failure =
    TypeError | ValueError | RecursionError | UnicodeDecodeError | UnicodeEncodeError
  | JSONDecodeError | FileNotFoundError | OSError | IllTyped

text \<open>
  A file is represented by what reading it as UTF-8 text and \<open>json.load\<close> make of its
  bytes: an exception other than \<open>JSONDecodeError\<close> (\<open>UnicodeDecodeError\<close> for bytes
  that are not UTF-8, \<open>RecursionError\<close> for nesting beyond the interpreter's limit,
  \<open>ValueError\<close> for an integer literal beyond its digit limit), text that is not JSON
  (\<open>JSONDecodeError\<close>; the empty file and a truncated dump are such), or a document.
  \<open>json.dump\<close> writes text that \<open>json.load\<close> reads back as the value dumped.
\<close>

datatype contents = Unloadable failure | NotJson | Json json

text \<open>What \<open>print\<close> writes, one constructor per message of the source.\<close>

datatype message =
    BookAdded str
  | BookRemoved str
  | BookNotFound str
  | FoundHeader
  | NothingFound
  | LibraryEmpty
  | ListHeader
  | Line str
  | BadIdFormat
  | BadStatus
  | StatusUpdated str str
  | NoSuchId

text \<open>
  The file system, the values that the coming calls of \<open>uuid.uuid4()\<close> return, and the
  lines printed so far. Of the file system: the files there are, and for each path whether
  the process may read and may write there (permissions, directories in the way, room on
  the disk).
\<close>

record world =
  files :: "str \<rightharpoonup> contents"
  readable :: "str \<Rightarrow> bool"
  writable :: "str \<Rightarrow> bool"
  rng :: "nat \<Rightarrow> uuid"
  out :: "message list"

definition print :: "message list \<Rightarrow> world \<Rightarrow> world" where
  "print ms w = w\<lparr>out := out w @ ms\<rparr>"

definition uuid4 :: "world \<Rightarrow> uuid \<times> world" where
  "uuid4 w = (rng w 0, w\<lparr>rng := \<lambda>n. rng w (Suc n)\<rparr>)"

text \<open>
  \<open>open\<close> refuses the empty path (\<open>FileNotFoundError\<close>) and a path with a null
  character (\<open>ValueError\<close>) before it looks at the file system.
\<close>

definition path_error :: "str \<Rightarrow> failure option" where
  "path_error p =
     (if p = [] then Some FileNotFoundError
      else if 0 \<in> set p then Some ValueError
      else None)"

text \<open>\<open>open(p, "w")\<close>: \<open>None\<close> when the file is opened, and thereby emptied.\<close>

definition open_w :: "str \<Rightarrow> world \<Rightarrow> failure option" where
  "open_w p w =
     (case path_error p of
        Some e \<Rightarrow> Some e
      | None \<Rightarrow> if writable w p then None else Some OSError)"

text \<open>\<open>open(p, "r")\<close> followed by \<open>json.load\<close>.\<close>

definition json_load :: "str \<Rightarrow> world \<Rightarrow> failure + json" where
  "json_load p w =
     (case path_error p of
        Some e \<Rightarrow> Inl e
      | None \<Rightarrow>
          (case files w p of
             None \<Rightarrow> Inl FileNotFoundError
           | Some c \<Rightarrow>
               if \<not> readable w p then Inl OSError
               else (case c of
                       Unloadable e \<Rightarrow> Inl e
                     | NotJson \<Rightarrow> Inl JSONDecodeError
                     | Json j \<Rightarrow> Inr j)))"

subsection \<open>Book.__init__ and __str__\<close>

text \<open>
  \<open>id or str(uuid.uuid4())\<close>: the identifier is generated when \<open>id\<close> is \<open>None\<close> and also
  when it is the empty string, which is false in Python. An omitted \<open>status\<close> has the
  default.
\<close>

definition Book :: "str \<Rightarrow> str \<Rightarrow> yearval \<Rightarrow> str option \<Rightarrow> str option \<Rightarrow> world \<Rightarrow> book \<times> world" where
  "Book t a y i s w =
     (let st = (case s of None \<Rightarrow> in_stock | Some x \<Rightarrow> x)
      in if i = None \<or> i = Some []
         then (let (u, w') = uuid4 w
               in (\<lparr>id_book = str_uuid u, title = t, author = a, year = y, status = st\<rparr>, w'))
         else (\<lparr>id_book = the i, title = t, author = a, year = y, status = st\<rparr>, w))"

definition render :: "book \<Rightarrow> str" where
  "render b = id_book b @ [32] @ title b @ [32, 45, 32] @ author b @ [44, 32] @
              str_year (year b) @ [32, 40] @ status b @ [41]"

section \<open>Library\<close>

record library =
  filename :: str
  books :: "book list"

subsection \<open>save_books\<close>

definition k_id :: str where "k_id = ascii ''id''"
definition k_title :: str where "k_title = ascii ''title''"
definition k_author :: str where "k_author = ascii ''author''"
definition k_year :: str where "k_year = ascii ''year''"
definition k_status :: str where "k_status = ascii ''status''"

fun json_of_year :: "yearval \<Rightarrow> json" where
  "json_of_year (YInt i) = JInt i"
| "json_of_year (YStr s) = JStr s"

text \<open>\<open>vars(book)\<close>: the attributes in the order \<open>__init__\<close> assigns them.\<close>

definition vars_book :: "book \<Rightarrow> json" where
  "vars_book b =
     JDict [(k_id, JStr (id_book b)), (k_title, JStr (title b)), (k_author, JStr (author b)),
            (k_year, json_of_year (year b)), (k_status, JStr (status b))]"

text \<open>
  The file is opened with \<open>encoding="utf-8"\<close> and the strings are dumped with
  \<open>ensure_ascii=False\<close>, as they are. UTF-8 has no encoding for a surrogate code point
  (U+D800 to U+DFFF), which a Python string may hold, for example after loading the escape
  \<open>\ud800\<close>.
\<close>

definition surrogate :: "nat \<Rightarrow> bool" where
  "surrogate c = (55296 \<le> c \<and> c \<le> 57343)"

definition encodable :: "str \<Rightarrow> bool" where
  "encodable s = (\<not> list_ex surrogate s)"

fun encodable_year :: "yearval \<Rightarrow> bool" where
  "encodable_year (YInt i) = True"
| "encodable_year (YStr s) = encodable s"

definition encodable_book :: "book \<Rightarrow> bool" where
  "encodable_book b =
     (encodable (id_book b) \<and> encodable (title b) \<and> encodable (author b) \<and>
      encodable_year (year b) \<and> encodable (status b))"

text \<open>
  The result is the exception raised, if any. When \<open>open\<close> fails the file is untouched.
  Once opened with mode \<open>w\<close> the file has lost its old contents; \<open>json.dump\<close> writes
  piece by piece, and the first string that cannot be encoded raises
  \<open>UnicodeEncodeError\<close> and leaves the pieces written before it, a truncated dump.
\<close>

definition save_books :: "library \<Rightarrow> world \<Rightarrow> failure option \<times> world" where
  "save_books lib w =
     (case open_w (filename lib) w of
        Some e \<Rightarrow> (Some e, w)
      | None \<Rightarrow>
          if list_all encodable_book (books lib)
          then (None,
                w\<lparr>files := (files w)(filename lib \<mapsto> Json (JList (map vars_book (books lib))))\<rparr>)
          else (Some UnicodeEncodeError, w\<lparr>files := (files w)(filename lib \<mapsto> NotJson)\<rparr>))"

subsection \<open>load_books\<close>

text \<open>Lookup in a dict; of two items with one key the later one stands.\<close>

definition dict_get :: "(str \<times> json) list \<Rightarrow> str \<Rightarrow> json option" where
  "dict_get d k = map_of (rev d) k"

fun truthy :: "json \<Rightarrow> bool" where
  "truthy JNull = False"
| "truthy (JBool b) = b"
| "truthy (JInt i) = (i \<noteq> 0)"
| "truthy (JStr s) = (s \<noteq> [])"
| "truthy (JList xs) = (xs \<noteq> [])"
| "truthy (JDict d) = (d \<noteq> [])"

fun as_str :: "json \<Rightarrow> str option" where
  "as_str (JStr s) = Some s"
| "as_str _ = None"

fun as_year :: "json \<Rightarrow> yearval option" where
  "as_year (JInt i) = Some (YInt i)"
| "as_year (JStr s) = Some (YStr s)"
| "as_year _ = None"

text \<open>
  The \<open>id\<close> argument: absent or false, the constructor generates one (\<open>Some None\<close>);
  a non-empty string is taken; any other true value is outside the typed model (\<open>None\<close>).
\<close>

definition id_arg :: "json option \<Rightarrow> str option option" where
  "id_arg j =
     (case j of
        None \<Rightarrow> Some None
      | Some (JStr s) \<Rightarrow> Some (Some s)
      | Some v \<Rightarrow> if truthy v then None else Some None)"

definition status_arg :: "json option \<Rightarrow> str option option" where
  "status_arg j =
     (case j of
        None \<Rightarrow> Some None
      | Some (JStr s) \<Rightarrow> Some (Some s)
      | Some v \<Rightarrow> None)"

text \<open>
  \<open>Book(**book_data)\<close>: a key that is no parameter of \<open>__init__\<close>, or a missing
  \<open>title\<close>, \<open>author\<close> or \<open>year\<close>, raises \<open>TypeError\<close>.
\<close>

definition Book_kwargs :: "(str \<times> json) list \<Rightarrow> world \<Rightarrow> (failure + book) \<times> world" where
  "Book_kwargs d w =
     (if list_ex (\<lambda>k. k \<notin> set [k_title, k_author, k_year, k_id, k_status]) (map fst d)
      then (Inl TypeError, w)
      else case (dict_get d k_title, dict_get d k_author, dict_get d k_year) of
             (Some jt, Some ja, Some jy) \<Rightarrow>
               (case (as_str jt, as_str ja, as_year jy,
                      id_arg (dict_get d k_id), status_arg (dict_get d k_status)) of
                  (Some t, Some a, Some y, Some i, Some s) \<Rightarrow>
                    (let (b, w') = Book t a y i s w in (Inr b, w'))
                | _ \<Rightarrow> (Inl IllTyped, w))
           | _ \<Rightarrow> (Inl TypeError, w))"

text \<open>The list comprehension over the document's elements; it stops at the first exception.\<close>

fun load_items :: "json list \<Rightarrow> world \<Rightarrow> (failure + book list) \<times> world" where
  "load_items [] w = (Inr [], w)"
| "load_items (j # js) w =
     (case j of
        JDict d \<Rightarrow>
          (case Book_kwargs d w of
             (Inl e, w') \<Rightarrow> (Inl e, w')
           | (Inr b, w') \<Rightarrow>
               (case load_items js w' of
                  (Inl e, w'') \<Rightarrow> (Inl e, w'')
                | (Inr bs, w'') \<Rightarrow> (Inr (b # bs), w'')))
      | _ \<Rightarrow> (Inl TypeError, w))"

text \<open>
  The body of the \<open>try\<close>. Iterating a document that is a number, a boolean or \<open>null\<close>
  raises \<open>TypeError\<close>; a dict yields its keys and a string its characters, on which
  \<open>Book(**...)\<close> raises \<open>TypeError\<close>, unless there are none.
\<close>

definition load_try :: "str \<Rightarrow> world \<Rightarrow> (failure + book list) \<times> world" where
  "load_try fn w =
     (case json_load fn w of
        Inl e \<Rightarrow> (Inl e, w)
      | Inr (JList xs) \<Rightarrow> load_items xs w
      | Inr (JDict []) \<Rightarrow> (Inr [], w)
      | Inr (JStr []) \<Rightarrow> (Inr [], w)
      | Inr _ \<Rightarrow> (Inl TypeError, w))"

text \<open>
  \<open>except (FileNotFoundError, json.JSONDecodeError)\<close>: these two are answered with the
  empty list, every other exception goes on to the caller.
\<close>

definition load_books :: "str \<Rightarrow> world \<Rightarrow> (failure + book list) \<times> world" where
  "load_books fn w =
     (case load_try fn w of
        (Inl e, w') \<Rightarrow>
          if e = FileNotFoundError \<or> e = JSONDecodeError then (Inr [], w') else (Inl e, w')
      | (Inr bs, w') \<Rightarrow> (Inr bs, w'))"

subsection \<open>Library.__init__\<close>

definition Library :: "str \<Rightarrow> world \<Rightarrow> (failure + library) \<times> world" where
  "Library fn w =
     (case load_books fn w of
        (Inl e, w') \<Rightarrow> (Inl e, w')
      | (Inr bs, w') \<Rightarrow> (Inr \<lparr>filename = fn, books = bs\<rparr>, w'))"

subsection \<open>add_book\<close>

text \<open>
  The methods that save return the exception that left them, if any, with the library as
  the method left it: the list is changed before \<open>save_books\<close> is called, and what
  follows a failed \<open>save_books\<close> is not executed.
\<close>

definition add_book ::
  "str \<Rightarrow> str \<Rightarrow> yearval \<Rightarrow> library \<Rightarrow> world \<Rightarrow> failure option \<times> library \<times> world" where
  "add_book t a y lib w =
     (let (b, w1) = Book t a y None None w;
          lib' = lib\<lparr>books := books lib @ [b]\<rparr>
      in case save_books lib' w1 of
           (Some e, w2) \<Rightarrow> (Some e, lib', w2)
         | (None, w2) \<Rightarrow> (None, lib', print [BookAdded t] w2))"

subsection \<open>remove_book\<close>

text \<open>
  The loop with its \<open>self.books.remove(book)\<close>: \<open>Book\<close> defines no \<open>__eq__\<close>, so
  \<open>remove\<close> deletes the object the loop stands at. \<open>None\<close> when the loop runs to its end.
\<close>

fun remove_loop :: "str \<Rightarrow> book list \<Rightarrow> book list option" where
  "remove_loop bid [] = None"
| "remove_loop bid (b # bs) =
     (if id_book b = bid then Some bs else map_option ((#) b) (remove_loop bid bs))"

definition remove_book :: "str \<Rightarrow> library \<Rightarrow> world \<Rightarrow> failure option \<times> library \<times> world" where
  "remove_book bid lib w =
     (case remove_loop bid (books lib) of
        Some bs \<Rightarrow>
          (let lib' = lib\<lparr>books := bs\<rparr>;
               (r, w') = save_books lib' (print [BookRemoved bid] w)
           in (r, lib', w'))
      | None \<Rightarrow> (None, lib, print [BookNotFound bid] w))"

subsection \<open>find_book and display_books\<close>

text \<open>
  \<open>lower\<close> stands for the built-in \<open>str.lower\<close>, whose Unicode tables are not part of
  the program.
\<close>

definition found_books :: "(str \<Rightarrow> str) \<Rightarrow> str \<Rightarrow> book list \<Rightarrow> book list" where
  "found_books lower query bs =
     filter (\<lambda>b. py_in (lower query) (lower (title b))
               \<or> py_in (lower query) (lower (author b))
               \<or> query = str_year (year b)) bs"

definition find_book :: "(str \<Rightarrow> str) \<Rightarrow> str \<Rightarrow> library \<Rightarrow> world \<Rightarrow> world" where
  "find_book lower query lib w =
     (let found = found_books lower query (books lib)
      in if found \<noteq> [] then print (FoundHeader # map (\<lambda>b. Line (render b)) found) w
         else print [NothingFound] w)"

definition display_books :: "library \<Rightarrow> world \<Rightarrow> world" where
  "display_books lib w =
     (if books lib = [] then print [LibraryEmpty] w
      else print (ListHeader # map (\<lambda>b. Line (render b)) (books lib)) w)"

subsection \<open>update_status\<close>

definition allowed_statuses :: "str set" where
  "allowed_statuses = {in_stock, checked_out}"

text \<open>
  The loop: the first book whose \<open>id\<close> attribute, a string, compares equal to the parsed
  UUID object gets the new status; the result carries its title for the message.
\<close>

fun update_loop :: "uuid \<Rightarrow> str \<Rightarrow> book list \<Rightarrow> (book list \<times> str) option" where
  "update_loop u st [] = None"
| "update_loop u st (b # bs) =
     (if py_eq (Str (id_book b)) (UUID u) then Some (b\<lparr>status := st\<rparr> # bs, title b)
      else map_option (\<lambda>(bs', t). (b # bs', t)) (update_loop u st bs))"

text \<open>
  \<open>parse\<close> stands for the constructor \<open>uuid.UUID\<close> of the standard library: \<open>None\<close>
  is its \<open>ValueError\<close>.
\<close>

definition update_status ::
  "(str \<Rightarrow> uuid option) \<Rightarrow> str \<Rightarrow> str \<Rightarrow> library \<Rightarrow> world \<Rightarrow> failure option \<times> library \<times> world"
  where
  "update_status parse bid st lib w =
     (case parse bid of
        None \<Rightarrow> (None, lib, print [BadIdFormat] w)
      | Some u \<Rightarrow>
          if st \<notin> allowed_statuses then (None, lib, print [BadStatus] w)
          else (case update_loop u st (books lib) of
                  Some (bs, t) \<Rightarrow>
                    (let lib' = lib\<lparr>books := bs\<rparr>
                     in case save_books lib' w of
                          (Some e, w') \<Rightarrow> (Some e, lib', w')
                        | (None, w') \<Rightarrow> (None, lib', print [StatusUpdated t st] w'))
                | None \<Rightarrow> (None, lib, print [NoSuchId] w)))"

text \<open>
  A parser for the examples: the hyphens removed, 32 hexadecimal digits are read as a
  number, as \<open>uuid.UUID\<close> does with a string in the canonical form.
\<close>

definition hexval :: "nat \<Rightarrow> nat option" where
  "hexval c =
     (if 48 \<le> c \<and> c \<le> 57 then Some (c - 48)
      else if 97 \<le> c \<and> c \<le> 102 then Some (c - 87)
      else if 65 \<le> c \<and> c \<le> 70 then Some (c - 55)
      else None)"

fun hexnum :: "str \<Rightarrow> nat \<Rightarrow> nat option" where
  "hexnum [] acc = Some acc"
| "hexnum (c # cs) acc = (case hexval c of None \<Rightarrow> None | Some d \<Rightarrow> hexnum cs (16 * acc + d))"

definition hex_uuid :: "str \<Rightarrow> uuid option" where
  "hex_uuid s =
     (let h = filter (\<lambda>c. c \<noteq> 45) s
      in if length h \<noteq> 32 then None else map_option of_nat (hexnum h 0))"


section \<open>Find, in the words of the specification\<close>

text \<open>
  A record matches a query when its title or its author contains the query as a substring
  once both are lowered, or when the rendering of its year is the query. \<open>Find\<close> returns
  the matching records in the order of the catalog.
\<close>

definition contains_ci :: "(str \<Rightarrow> str) \<Rightarrow> str \<Rightarrow> str \<Rightarrow> bool" where
  "contains_ci lower s query = (\<exists>pre suf. lower s = pre @ lower query @ suf)"

definition spec_matches :: "(str \<Rightarrow> str) \<Rightarrow> str \<Rightarrow> book \<Rightarrow> bool" where
  "spec_matches lower query b =
     (contains_ci lower (title b) query \<or> contains_ci lower (author b) query
      \<or> str_year (year b) = query)"

definition spec_find :: "(str \<Rightarrow> str) \<Rightarrow> str \<Rightarrow> book list \<Rightarrow> book list" where
  "spec_find lower query bs = filter (spec_matches lower query) bs"

section \<open>Example data\<close>

text \<open>The lowering of ASCII letters, on which \<open>str.lower\<close> agrees for ASCII text.\<close>

definition ascii_lower :: "str \<Rightarrow> str" where
  "ascii_lower s = map (\<lambda>c. if 65 \<le> c \<and> c \<le> 90 then c + 32 else c) s"

definition id_a :: str where
  "id_a = ascii ''1274d8e0-3b49-41eb-b3f6-1ee5fd38aae1''"

definition id_b :: str where
  "id_b = ascii ''7d0a3c52-9e41-4b7f-a1c6-52f0e8d9b3a4''"

definition war_and_peace :: book where
  "war_and_peace = \<lparr>id_book = id_a, title = ascii ''War and Peace'', author = ascii ''Tolstoy'',
                     year = YInt 1869, status = in_stock\<rparr>"

definition anna_karenina :: book where
  "anna_karenina = \<lparr>id_book = id_b, title = ascii ''Anna Karenina'', author = ascii ''Tolstoy'',
                     year = YInt 1877, status = in_stock\<rparr>"

definition store :: str where
  "store = ascii ''library.json''"

definition shelf :: library where
  "shelf = \<lparr>filename = store, books = [war_and_peace, anna_karenina]\<rparr>"

text \<open>
  No file yet, every path may be read and written, nothing printed; \<open>uuid4\<close> will return
  version-4 values.
\<close>

definition world0 :: world where
  "world0 = \<lparr>files = Map.empty, readable = (\<lambda>p. True), writable = (\<lambda>p. True),
             rng = (\<lambda>n. 0x3c0e7a9e5d2b4f6a8b1c0d9e8f7a6b5c + of_nat n),
             out = []\<rparr>"

text \<open>
  A record as \<open>load_books\<close> builds it from a store entry whose title is the escape
  \<open>\ud800\<close>: one surrogate code point.
\<close>

definition escaped :: book where
  "escaped = \<lparr>id_book = id_b, title = [55296], author = ascii ''Anon'',
               year = YInt 2000, status = in_stock\<rparr>"

text \<open>The stores from which \<open>load_books\<close> builds the two shelves of the examples.\<close>

definition shelf_stored :: world where
  "shelf_stored =
     world0\<lparr>files := [store \<mapsto> Json (JList [vars_book war_and_peace, vars_book anna_karenina])]\<rparr>"

definition escaped_shelf :: library where
  "escaped_shelf = \<lparr>filename = store, books = [war_and_peace, escaped]\<rparr>"

definition escaped_stored :: world where
  "escaped_stored =
     world0\<lparr>files := [store \<mapsto> Json (JList [vars_book war_and_peace, vars_book escaped])]\<rparr>"

section \<open>Identifiers are never empty\<close>

lemma hex32_length: "length (hex32 u) = 32"
  by (simp add: hex32_def)

lemma str_uuid_length: "length (str_uuid u) = 36"
  by (simp add: str_uuid_def Let_def hex32_length)

lemma str_uuid_nonempty: "str_uuid u \<noteq> []"
  using str_uuid_length [of u] by auto

lemma str_uuid_first:
  "str_uuid 0x3c0e7a9e5d2b4f6a8b1c0d9e8f7a6b5c = ascii ''3c0e7a9e-5d2b-4f6a-8b1c-0d9e8f7a6b5c''"
  by code_simp

lemma Book_id_nonempty: "id_book (fst (Book t a y i s w)) \<noteq> []"
  by (cases i) (simp_all add: Book_def uuid4_def Let_def str_uuid_nonempty)

text \<open>
  C8. An id string supplied to the constructor should become the record's id verbatim.
  The constructor tests the argument with \<open>or\<close>, so the empty string, though supplied,
  is replaced by a generated identifier: here by the rendering of the value that
  \<open>uuid.uuid4()\<close> returns next.
\<close>

theorem Book_empty_id_replaced:
  "id_book (fst (Book (ascii ''Idiot'') (ascii ''Dostoevsky'') (YInt 1869) (Some []) None world0))
     = ascii ''3c0e7a9e-5d2b-4f6a-8b1c-0d9e8f7a6b5c''"
  by (simp add: Book_def uuid4_def world0_def str_uuid_first)

section \<open>What save_books does\<close>

lemma open_w_print [simp]: "open_w p (print ms w) = open_w p w"
  by (simp add: open_w_def print_def)








section \<open>remove_book\<close>

lemma remove_loop_append:
  "\<forall>x\<in>set pre. id_book x \<noteq> bid \<Longrightarrow> id_book b = bid \<Longrightarrow>
     remove_loop bid (pre @ b # suf) = Some (pre @ suf)"
  by (induction pre) auto

lemma remove_loop_SomeD:
  "remove_loop bid bs = Some bs' \<Longrightarrow>
     \<exists>pre b suf. bs = pre @ b # suf \<and> id_book b = bid \<and>
       (\<forall>x\<in>set pre. id_book x \<noteq> bid) \<and> bs' = pre @ suf"
proof (induction bs arbitrary: bs')
  case Nil
  then show ?case by simp
next
  case (Cons a bs)
  show ?case
  proof (cases "id_book a = bid")
    case True
    with Cons.prems have "bs' = bs" by simp
    with True have "a # bs = [] @ a # bs \<and> id_book a = bid \<and>
        (\<forall>x\<in>set []. id_book x \<noteq> bid) \<and> bs' = [] @ bs" by simp
    then show ?thesis by blast
  next
    case False
    with Cons.prems obtain r where r: "remove_loop bid bs = Some r" and bs': "bs' = a # r"
      by auto
    from Cons.IH [OF r] obtain pre b suf where
      "bs = pre @ b # suf" "id_book b = bid" "\<forall>x\<in>set pre. id_book x \<noteq> bid" "r = pre @ suf"
      by blast
    with False bs' have "a # bs = (a # pre) @ b # suf \<and> id_book b = bid \<and>
        (\<forall>x\<in>set (a # pre). id_book x \<noteq> bid) \<and> bs' = (a # pre) @ suf" by simp
    then show ?thesis by blast
  qed
qed

lemma remove_loop_None:
  "remove_loop bid bs = None \<longleftrightarrow> (\<forall>b\<in>set bs. id_book b \<noteq> bid)"
  by (induction bs) auto




section \<open>find_book\<close>

lemma starts_with_iff: "starts_with xs ys \<longleftrightarrow> (\<exists>suf. ys = xs @ suf)"
  by (induction xs ys rule: starts_with.induct) auto

lemma py_in_iff: "py_in xs ys \<longleftrightarrow> (\<exists>pre suf. ys = pre @ xs @ suf)"
proof (induction ys)
  case Nil
  then show ?case by auto
next
  case (Cons y ys)
  have "(\<exists>pre suf. y # ys = pre @ xs @ suf) \<longleftrightarrow>
        (\<exists>suf. y # ys = xs @ suf) \<or> (\<exists>pre suf. ys = pre @ xs @ suf)"
  proof
    assume "\<exists>pre suf. y # ys = pre @ xs @ suf"
    then obtain pre suf where e: "y # ys = pre @ xs @ suf" by blast
    show "(\<exists>suf. y # ys = xs @ suf) \<or> (\<exists>pre suf. ys = pre @ xs @ suf)"
    proof (cases pre)
      case Nil
      with e show ?thesis by auto
    next
      case (Cons p ps)
      with e have "ys = ps @ xs @ suf" by simp
      then show ?thesis by blast
    qed
  next
    assume "(\<exists>suf. y # ys = xs @ suf) \<or> (\<exists>pre suf. ys = pre @ xs @ suf)"
    then show "\<exists>pre suf. y # ys = pre @ xs @ suf"
    proof
      assume "\<exists>suf. y # ys = xs @ suf"
      then obtain suf where "y # ys = [] @ xs @ suf" by auto
      then show ?thesis by blast
    next
      assume "\<exists>pre suf. ys = pre @ xs @ suf"
      then obtain pre suf where "y # ys = (y # pre) @ xs @ suf" by auto
      then show ?thesis by blast
    qed
  qed
  with Cons.IH show ?case by (simp add: starts_with_iff)
qed


lemma py_in_empty: "py_in [] ys"
  by (cases ys) simp_all

lemma found_books_spec: "found_books lower query bs = spec_find lower query bs"
  unfolding found_books_def spec_find_def
  by (rule filter_cong) (auto simp: spec_matches_def contains_ci_def py_in_iff)

text \<open>
  C5. \<open>find_book\<close> selects exactly the records that match in the specification's sense
  (title or author contains the query, both lowered; or the year's rendering is the
  query), in the order of the catalog, and prints them under a header; when none matches,
  as in an empty catalog, it prints "nothing found".
\<close>

theorem find_book_spec:
  "found_books lower query (books lib) = spec_find lower query (books lib) \<and>
   find_book lower query lib w =
     w\<lparr>out := out w @
        (if spec_find lower query (books lib) = [] then [NothingFound]
         else FoundHeader # map (\<lambda>b. Line (render b)) (spec_find lower query (books lib)))\<rparr> \<and>
   (books lib = [] \<longrightarrow> find_book lower query lib w = w\<lparr>out := out w @ [NothingFound]\<rparr>)"
  by (simp add: found_books_spec find_book_def print_def Let_def spec_find_def)

text \<open>
  C9. The empty query matches every record, since the empty string is a substring of every
  lowered title (\<open>str.lower\<close> maps the empty string to itself): \<open>find_book\<close> prints
  the whole catalog in order, and "nothing found" is printed exactly when the catalog is
  empty.
\<close>

theorem find_book_empty_query:
  assumes "lower [] = []"
  shows "found_books lower [] (books lib) = books lib \<and>
         find_book lower [] lib w =
           w\<lparr>out := out w @
              (if books lib = [] then [NothingFound]
               else FoundHeader # map (\<lambda>b. Line (render b)) (books lib))\<rparr> \<and>
         (NothingFound \<in> set (drop (length (out w)) (out (find_book lower [] lib w)))
            \<longleftrightarrow> books lib = [])"
proof -
  have f: "found_books lower [] bs = bs" for bs
    by (simp add: found_books_def assms py_in_empty)
  show ?thesis
    by (auto simp: f find_book_def print_def Let_def)
qed


lemma found_tolstoy:
  "found_books ascii_lower (ascii ''TOLSTOY'') (books shelf) = [war_and_peace, anna_karenina]"
  by code_simp

lemma found_1877:
  "found_books ascii_lower (ascii ''1877'') (books shelf) = [anna_karenina]"
  by code_simp

lemma found_crime:
  "found_books ascii_lower (ascii ''Crime'') (books shelf) = []"
  by code_simp

theorem find_book_spec_witness:
  "spec_find ascii_lower (ascii ''TOLSTOY'') (books shelf) = [war_and_peace, anna_karenina] \<and>
   spec_find ascii_lower (ascii ''1877'') (books shelf) = [anna_karenina] \<and>
   out (find_book ascii_lower (ascii ''1877'') shelf world0)
     = [FoundHeader, Line (render anna_karenina)] \<and>
   out (find_book ascii_lower (ascii ''Crime'') shelf world0) = [NothingFound] \<and>
   find_book ascii_lower (ascii ''Tolstoy'') \<lparr>filename = store, books = []\<rparr> world0
     = world0\<lparr>out := [NothingFound]\<rparr>"
proof -
  have a: "spec_find ascii_lower (ascii ''TOLSTOY'') (books shelf) = [war_and_peace, anna_karenina]"
    using find_book_spec [of ascii_lower "ascii ''TOLSTOY''" shelf world0] found_tolstoy by simp
  have b: "spec_find ascii_lower (ascii ''1877'') (books shelf) = [anna_karenina]"
    using find_book_spec [of ascii_lower "ascii ''1877''" shelf world0] found_1877 by simp
  have c: "spec_find ascii_lower (ascii ''Crime'') (books shelf) = []"
    using find_book_spec [of ascii_lower "ascii ''Crime''" shelf world0] found_crime by simp
  have d: "out (find_book ascii_lower (ascii ''1877'') shelf world0)
             = [FoundHeader, Line (render anna_karenina)]"
    using find_book_spec [of ascii_lower "ascii ''1877''" shelf world0] b
    by (simp add: world0_def)
  have e: "out (find_book ascii_lower (ascii ''Crime'') shelf world0) = [NothingFound]"
    using find_book_spec [of ascii_lower "ascii ''Crime''" shelf world0] c
    by (simp add: world0_def)
  have f: "find_book ascii_lower (ascii ''Tolstoy'') \<lparr>filename = store, books = []\<rparr> world0
             = world0\<lparr>out := [NothingFound]\<rparr>"
    using find_book_spec [of ascii_lower "ascii ''Tolstoy''" "\<lparr>filename = store, books = []\<rparr>" world0]
    by (simp add: world0_def spec_find_def)
  from a b d e f show ?thesis by simp
qed

theorem find_book_empty_query_witness:
  "ascii_lower [] = [] \<and>
   found_books ascii_lower [] (books shelf) = [war_and_peace, anna_karenina] \<and>
   out (find_book ascii_lower [] shelf world0)
     = [FoundHeader, Line (render war_and_peace), Line (render anna_karenina)] \<and>
   out (find_book ascii_lower [] \<lparr>filename = store, books = []\<rparr> world0) = [NothingFound]"
proof -
  have l: "ascii_lower [] = []" by (simp add: ascii_lower_def)
  from find_book_empty_query [of ascii_lower shelf world0, OF l]
  have a: "found_books ascii_lower [] (books shelf) = [war_and_peace, anna_karenina]"
    and b: "out (find_book ascii_lower [] shelf world0)
              = [FoundHeader, Line (render war_and_peace), Line (render anna_karenina)]"
    by (simp_all add: shelf_def world0_def)
  from find_book_empty_query [of ascii_lower "\<lparr>filename = store, books = []\<rparr>" world0, OF l]
  have c: "out (find_book ascii_lower [] \<lparr>filename = store, books = []\<rparr> world0) = [NothingFound]"
    by (simp add: world0_def)
  from l a b c show ?thesis by simp
qed

section \<open>update_status\<close>

lemma hex_uuid_id_a: "hex_uuid id_a = Some 0x1274d8e03b4941ebb3f61ee5fd38aae1"
  by (simp add: hex_uuid_def hexval_def id_a_def ascii_def)

lemma hex_uuid_nonexistent: "hex_uuid (ascii ''nonexistent_id'') = None"
  by (simp add: hex_uuid_def ascii_def)

lemma lost_not_allowed: "ascii ''lost'' \<notin> allowed_statuses"
  by (simp add: allowed_statuses_def in_stock_def checked_out_def ascii_def)

lemma checked_out_allowed: "checked_out \<in> allowed_statuses"
  by (simp add: allowed_statuses_def)

text \<open>
  C6. When the id string does not parse, \<open>update_status\<close> prints the message about the id
  format, whatever the status is (the id is checked first); when it parses and the status
  is not an allowed one, it prints the message about the status. In both cases the library
  is returned as it was, no exception is raised and the world differs only by the printed
  line: no record is changed and the store is not written.
\<close>

theorem update_status_rejects:
  "(parse bid = None \<longrightarrow>
      update_status parse bid st lib w = (None, lib, w\<lparr>out := out w @ [BadIdFormat]\<rparr>)) \<and>
   (parse bid \<noteq> None \<and> st \<notin> allowed_statuses \<longrightarrow>
      update_status parse bid st lib w = (None, lib, w\<lparr>out := out w @ [BadStatus]\<rparr>))"
  by (auto simp: update_status_def print_def)

theorem update_status_rejects_witness:
  "hex_uuid (ascii ''nonexistent_id'') = None \<and>
   ascii ''lost'' \<notin> allowed_statuses \<and>
   update_status hex_uuid (ascii ''nonexistent_id'') (ascii ''lost'') shelf world0
     = (None, shelf, world0\<lparr>out := [BadIdFormat]\<rparr>) \<and>
   hex_uuid id_a \<noteq> None \<and>
   update_status hex_uuid id_a (ascii ''lost'') shelf world0
     = (None, shelf, world0\<lparr>out := [BadStatus]\<rparr>)"
proof -
  have a: "update_status hex_uuid (ascii ''nonexistent_id'') (ascii ''lost'') shelf world0
             = (None, shelf, world0\<lparr>out := [BadIdFormat]\<rparr>)"
    using update_status_rejects [of hex_uuid "ascii ''nonexistent_id''" "ascii ''lost''" shelf world0]
      hex_uuid_nonexistent
    by (simp add: world0_def)
  have b: "update_status hex_uuid id_a (ascii ''lost'') shelf world0
             = (None, shelf, world0\<lparr>out := [BadStatus]\<rparr>)"
    using update_status_rejects [of hex_uuid id_a "ascii ''lost''" shelf world0]
      hex_uuid_id_a lost_not_allowed
    by (simp add: world0_def)
  from a b hex_uuid_nonexistent hex_uuid_id_a lost_not_allowed show ?thesis by simp
qed

text \<open>
  C1. Updating the status of a record that is in the catalog, by its well-formed id and
  with an allowed status, should set that record's status, write the store and report
  success. The loop compares the string \<open>book.id\<close> with the parsed UUID object, which
  are never equal: on the catalog holding the record with this very id, the call prints
  "no such id" and changes neither the record nor the store.
\<close>

theorem update_status_existing_id_not_found:
  "hex_uuid id_a = Some 0x1274d8e03b4941ebb3f61ee5fd38aae1 \<and>
   checked_out \<in> allowed_statuses \<and>
   id_book (hd (books shelf)) = id_a \<and>
   update_status hex_uuid id_a checked_out shelf world0
     = (None, shelf, world0\<lparr>out := [NoSuchId]\<rparr>)"
  by (simp add: hex_uuid_id_a checked_out_allowed update_status_def shelf_def print_def
      world0_def war_and_peace_def)

text \<open>No record's string id ever compares equal to a UUID object, whatever the parser is.\<close>

lemma update_loop_None: "update_loop u st bs = None"
  by (induction bs) simp_all

lemma update_status_changes_nothing:
  "fst (update_status parse bid st lib w) = None \<and>
   fst (snd (update_status parse bid st lib w)) = lib \<and>
   files (snd (snd (update_status parse bid st lib w))) = files w \<and>
   rng (snd (snd (update_status parse bid st lib w))) = rng w"
  by (simp add: update_status_def update_loop_None print_def split: option.splits)

section \<open>save_books and load_books\<close>

lemma keys_distinct: "distinct [k_id, k_title, k_author, k_year, k_status]"
  by (simp add: k_id_def k_title_def k_author_def k_year_def k_status_def ascii_def)

lemma as_year_json_of_year: "as_year (json_of_year y) = Some y"
  by (cases y) simp_all

lemma Book_given_id:
  "i \<noteq> [] \<Longrightarrow>
     Book t a y (Some i) (Some s) w
       = (\<lparr>id_book = i, title = t, author = a, year = y, status = s\<rparr>, w)"
  by (simp add: Book_def)

lemma Book_kwargs_vars:
  assumes "id_book b \<noteq> []"
  shows "Book_kwargs [(k_id, JStr (id_book b)), (k_title, JStr (title b)),
                      (k_author, JStr (author b)), (k_year, json_of_year (year b)),
                      (k_status, JStr (status b))] w = (Inr b, w)"
proof -
  let ?d = "[(k_id, JStr (id_book b)), (k_title, JStr (title b)),
             (k_author, JStr (author b)), (k_year, json_of_year (year b)),
             (k_status, JStr (status b))]"
  from keys_distinct have g:
    "dict_get ?d k_id = Some (JStr (id_book b))"
    "dict_get ?d k_title = Some (JStr (title b))"
    "dict_get ?d k_author = Some (JStr (author b))"
    "dict_get ?d k_year = Some (json_of_year (year b))"
    "dict_get ?d k_status = Some (JStr (status b))"
    by (auto simp: dict_get_def)
  have k: "\<not> list_ex (\<lambda>k. k \<notin> set [k_title, k_author, k_year, k_id, k_status]) (map fst ?d)"
    by simp
  show ?thesis
    unfolding Book_kwargs_def
    by (simp only: k g if_False)
       (simp add: as_year_json_of_year id_arg_def status_arg_def Book_given_id [OF assms])
qed

lemma load_items_vars:
  "\<forall>b\<in>set bs. id_book b \<noteq> [] \<Longrightarrow> load_items (map vars_book bs) w = (Inr bs, w)"
proof (induction bs)
  case Nil
  then show ?case by simp
next
  case (Cons b bs)
  then have "id_book b \<noteq> []" and rest: "load_items (map vars_book bs) w = (Inr bs, w)"
    by simp_all
  have h: "vars_book b = JDict [(k_id, JStr (id_book b)), (k_title, JStr (title b)),
                      (k_author, JStr (author b)), (k_year, json_of_year (year b)),
                      (k_status, JStr (status b))]"
    by (simp add: vars_book_def)
  from Book_kwargs_vars [OF \<open>id_book b \<noteq> []\<close>] rest show ?case
    by (simp add: h)
qed


lemma load_books_list:
  assumes "path_error fn = None" and "files w fn = Some (Json (JList xs))" and "readable w fn"
    and "load_items xs w = (Inr bs, w')"
  shows "load_books fn w = (Inr bs, w')"
  using assms by (simp add: load_books_def load_try_def json_load_def)





text \<open>The shelf with the escaped title is what the library loads from its store.\<close>

lemma escaped_shelf_loaded: "Library store escaped_stored = (Inr escaped_shelf, escaped_stored)"
proof -
  have i: "\<forall>b\<in>set [war_and_peace, escaped]. id_book b \<noteq> []"
    by (simp add: war_and_peace_def escaped_def id_a_def id_b_def ascii_def)
  have p: "path_error store = None"
    by (simp add: path_error_def store_def ascii_def)
  have "load_books store escaped_stored = (Inr [war_and_peace, escaped], escaped_stored)"
    using p _ _ load_items_vars [OF i]
    by (rule load_books_list) (simp_all add: escaped_stored_def world0_def)
  then show ?thesis
    by (simp add: Library_def escaped_shelf_def)
qed

section \<open>What load_books does with a damaged store\<close>

text \<open>
  C4. \<open>load_books\<close> should recover from a store it cannot read as a list of records by
  returning the empty list, as its comment and docstring say. Its \<open>except\<close> clause names
  \<open>FileNotFoundError\<close> and \<open>JSONDecodeError\<close> only. A store that holds valid JSON of
  another shape is not recovered from: here the only entry lacks \<open>author\<close> and \<open>year\<close>,
  and the constructor's \<open>TypeError\<close> leaves \<open>load_books\<close>. Nor is a store whose bytes
  are not UTF-8, whose \<open>UnicodeDecodeError\<close> leaves it as well.
\<close>

theorem load_books_raises_on_incomplete_record:
  "fst (load_books store
          (world0\<lparr>files := [store \<mapsto> Json (JList [JDict [(k_title, JStr (ascii ''Idiot''))]])]\<rparr>))
     = Inl TypeError \<and>
   fst (load_books store (world0\<lparr>files := [store \<mapsto> Unloadable UnicodeDecodeError]\<rparr>))
     = Inl UnicodeDecodeError"
proof -
  have p: "path_error store = None"
    by (simp add: path_error_def store_def ascii_def)
  have k: "k_title \<noteq> k_author"
    by (simp add: k_title_def k_author_def ascii_def)
  have a: "Book_kwargs [(k_title, JStr (ascii ''Idiot''))] w = (Inl TypeError, w)" for w
    using k by (simp add: Book_kwargs_def dict_get_def)
  show ?thesis
    by (simp add: load_books_def load_try_def json_load_def p a world0_def)
qed

section \<open>Which operations write the store\<close>

lemma Book_files: "files (snd (Book t a y i s w)) = files w"
  by (simp add: Book_def uuid4_def Let_def)

lemma Book_kwargs_files: "files (snd (Book_kwargs d w)) = files w"
proof -
  have "files (snd (case Book t a y i s w of (b, w') \<Rightarrow> (Inr b :: failure + book, w'))) = files w"
    for t a y i s
    using Book_files [of t a y i s w] by (simp add: case_prod_beta)
  then show ?thesis
    by (simp add: Book_kwargs_def split: option.splits prod.splits)
qed

lemma load_items_files: "files (snd (load_items xs w)) = files w"
proof (induction xs arbitrary: w)
  case Nil
  then show ?case by simp
next
  case (Cons j js)
  show ?case
  proof (cases j)
    case (JDict d)
    obtain r w1 where k: "Book_kwargs d w = (r, w1)" by fastforce
    with Book_kwargs_files [of d w] have f1: "files w1 = files w" by simp
    show ?thesis
    proof (cases r)
      case (Inl e)
      with JDict k f1 show ?thesis by simp
    next
      case (Inr b)
      obtain r2 w2 where l: "load_items js w1 = (r2, w2)" by fastforce
      with Cons.IH [of w1] f1 have "files w2 = files w" by simp
      with JDict k Inr l show ?thesis by (cases r2) simp_all
    qed
  qed simp_all
qed

lemma load_try_files: "files (snd (load_try fn w)) = files w"
  by (simp add: load_try_def load_items_files split: sum.splits json.splits list.splits)

lemma load_books_files: "files (snd (load_books fn w)) = files w"
proof -
  obtain r w1 where l: "load_try fn w = (r, w1)" by fastforce
  with load_try_files [of fn w] have "files w1 = files w" by simp
  with l show ?thesis by (cases r) (simp_all add: load_books_def)
qed

lemma Library_files: "files (snd (Library fn w)) = files w"
proof -
  obtain r w1 where l: "load_books fn w = (r, w1)" by fastforce
  with load_books_files [of fn w] have "files w1 = files w" by simp
  with l show ?thesis by (cases r) (simp_all add: Library_def)
qed

text \<open>
  C10. Constructing the library reads the store and never writes it, whether loading
  returns or raises. Of the operations, \<open>find_book\<close> and \<open>display_books\<close> never write;
  \<open>remove_book\<close> does not write when no record has the id; \<open>update_status\<close> does not
  write unless its loop meets a record that compares equal to the parsed id. What is left
  is \<open>add_book\<close>, a \<open>remove_book\<close> that found its record, and an \<open>update_status\<close> that
  reached one.
\<close>

theorem store_written_only_by_mutations:
  "files (snd (Library fn w)) = files w \<and>
   files (snd (load_books fn w)) = files w \<and>
   files (find_book lower query lib w) = files w \<and>
   files (display_books lib w) = files w \<and>
   ((\<forall>b\<in>set (books lib). id_book b \<noteq> bid) \<longrightarrow>
      files (snd (snd (remove_book bid lib w))) = files w) \<and>
   ((\<forall>u. parse bid = Some u \<longrightarrow> (\<forall>b\<in>set (books lib). \<not> py_eq (Str (id_book b)) (UUID u))) \<longrightarrow>
      files (snd (snd (update_status parse bid st lib w))) = files w)"
proof -
  have r: "(\<forall>b\<in>set (books lib). id_book b \<noteq> bid) \<longrightarrow>
      files (snd (snd (remove_book bid lib w))) = files w"
    by (simp add: remove_book_def remove_loop_None [symmetric] print_def)
  have u: "files (snd (snd (update_status parse bid st lib w))) = files w"
    by (simp add: update_status_changes_nothing)
  have f: "files (find_book lower query lib w) = files w"
    by (simp add: find_book_def print_def Let_def)
  have d: "files (display_books lib w) = files w"
    by (simp add: display_books_def print_def)
  from r u f d show ?thesis
    by (simp add: Library_files load_books_files)
qed

theorem store_written_only_by_mutations_witness:
  "files (snd (Library store shelf_stored)) = files shelf_stored \<and>
   files (snd (Library store shelf_stored)) store
     = Some (Json (JList [vars_book war_and_peace, vars_book anna_karenina])) \<and>
   files (snd (snd (remove_book (ascii ''nonexistent_id'') shelf world0))) = files world0 \<and>
   files (snd (snd (update_status hex_uuid id_a checked_out shelf world0))) = files world0"
proof -
  note t = store_written_only_by_mutations
    [of store shelf_stored ascii_lower "[]" shelf "ascii ''nonexistent_id''"
        hex_uuid checked_out]
  note t2 = store_written_only_by_mutations
    [of store world0 ascii_lower "[]" shelf "ascii ''nonexistent_id''" hex_uuid checked_out]
  note t3 = store_written_only_by_mutations
    [of store world0 ascii_lower "[]" shelf id_a hex_uuid checked_out]
  have a: "files (snd (Library store shelf_stored)) = files shelf_stored"
    using t by simp
  have b: "files shelf_stored store
     = Some (Json (JList [vars_book war_and_peace, vars_book anna_karenina]))"
    by (simp add: shelf_stored_def)
  have absent: "\<forall>b\<in>set (books shelf). id_book b \<noteq> ascii ''nonexistent_id''"
    by (simp add: shelf_def war_and_peace_def anna_karenina_def id_a_def id_b_def ascii_def)
  have c: "files (snd (snd (remove_book (ascii ''nonexistent_id'') shelf world0))) = files world0"
    using t2 absent by simp
  have nomatch: "\<forall>u. hex_uuid id_a = Some u \<longrightarrow>
      (\<forall>b\<in>set (books shelf). \<not> py_eq (Str (id_book b)) (UUID u))"
    by simp
  have d: "files (snd (snd (update_status hex_uuid id_a checked_out shelf world0))) = files world0"
    using t3 nomatch by simp
  from a b c d show ?thesis by simp
qed

section \<open>add_book\<close>



lemma open_w_rng [simp]: "open_w p (w\<lparr>rng := g\<rparr>) = open_w p w"
  by (simp add: open_w_def)


text \<open>What \<open>add_book\<close> does up to its call of \<open>save_books\<close>.\<close>

lemma add_book_unfold:
  "add_book t a y lib w =
     (let b = \<lparr>id_book = str_uuid (rng w 0), title = t, author = a, year = y, status = in_stock\<rparr>;
          lib' = lib\<lparr>books := books lib @ [b]\<rparr>
      in case save_books lib' (w\<lparr>rng := \<lambda>n. rng w (Suc n)\<rparr>) of
           (Some e, w2) \<Rightarrow> (Some e, lib', w2)
         | (None, w2) \<Rightarrow> (None, lib', print [BookAdded t] w2))"
  by (simp add: add_book_def Book_def uuid4_def Let_def)




section \<open>Every record of a library has a non-empty id\<close>

lemma Book_kwargs_id_nonempty:
  assumes "Book_kwargs d w = (Inr b, w')"
  shows "id_book b \<noteq> []"
proof -
  have "id_book x \<noteq> []" if "Book t a y i s w = (x, v)" for t a y i s x v
    using Book_id_nonempty [of t a y i s w] that by simp
  with assms show ?thesis
    by (auto simp: Book_kwargs_def split: if_splits option.splits prod.splits)
qed

lemma load_items_ids_nonempty:
  "load_items xs w = (Inr bs, w') \<Longrightarrow> \<forall>b\<in>set bs. id_book b \<noteq> []"
proof (induction xs arbitrary: w bs w')
  case Nil
  then show ?case by simp
next
  case (Cons j js)
  from Cons.prems obtain d where j: "j = JDict d"
    by (cases j) simp_all
  obtain r w1 where k: "Book_kwargs d w = (r, w1)" by fastforce
  with Cons.prems j obtain b where r: "r = Inr b"
    by (cases r) simp_all
  obtain r2 w2 where l: "load_items js w1 = (r2, w2)" by fastforce
  with Cons.prems j k r obtain bs2 where r2: "r2 = Inr bs2" and bs: "bs = b # bs2"
    by (cases r2) auto
  from l r2 have "load_items js w1 = (Inr bs2, w2)" by simp
  then have "\<forall>x\<in>set bs2. id_book x \<noteq> []" by (rule Cons.IH)
  moreover from k r have "id_book b \<noteq> []" by (simp add: Book_kwargs_id_nonempty)
  ultimately show ?case by (simp add: bs)
qed

lemma Library_ids_nonempty:
  assumes "Library fn w = (Inr lib, w')"
  shows "\<forall>b\<in>set (books lib). id_book b \<noteq> []"
proof -
  obtain r w1 where l: "load_books fn w = (r, w1)" by fastforce
  with assms obtain bs where r: "r = Inr bs" and lib: "books lib = bs"
    by (cases r) (auto simp: Library_def)
  from l r have "bs = [] \<or> (\<exists>xs. load_items xs w = (Inr bs, w1))"
    by (auto simp: load_books_def load_try_def
        split: sum.splits json.splits list.splits if_splits prod.splits)
  then show ?thesis
    using load_items_ids_nonempty lib by auto
qed

lemma add_book_ids_nonempty:
  assumes "\<forall>b\<in>set (books lib). id_book b \<noteq> []"
  shows "\<forall>b\<in>set (books (fst (snd (add_book t a y lib w)))). id_book b \<noteq> []"
  using assms
  by (simp add: add_book_unfold Let_def str_uuid_nonempty split: prod.splits option.splits)

lemma remove_book_ids_nonempty:
  assumes "\<forall>b\<in>set (books lib). id_book b \<noteq> []"
  shows "\<forall>b\<in>set (books (fst (snd (remove_book bid lib w)))). id_book b \<noteq> []"
proof (cases "remove_loop bid (books lib)")
  case None
  with assms show ?thesis by (simp add: remove_book_def)
next
  case (Some bs)
  from remove_loop_SomeD [OF Some] have "set bs \<subseteq> set (books lib)" by auto
  with assms Some show ?thesis
    by (auto simp: remove_book_def Let_def split: prod.splits)
qed

lemma update_status_ids_nonempty:
  assumes "\<forall>b\<in>set (books lib). id_book b \<noteq> []"
  shows "\<forall>b\<in>set (books (fst (snd (update_status parse bid st lib w)))). id_book b \<noteq> []"
  using assms by (simp add: update_status_changes_nothing)

end
